theory Spec2Isabelle
  imports Main
begin

section \<open>JavaScript values and thrown errors\<close>

text \<open>
  Job inputs, handler results and serialized errors are JSON-like JavaScript values.
  \<open>JUndefined\<close> stands for a missing property (\<open>input?: unknown\<close>). Numbers
  are carried as integers: the code never computes with a number inside a value, it only
  asks for its \<open>typeof\<close>.
\<close>

datatype js_value =
    JUndefined
  | JNull
  | JBool bool
  | JNum int
  | JStr string
  | JArr "js_value list"
  | JObj "(string \<times> js_value) list"

text \<open>The \<open>typeof\<close> operator: \<open>null\<close> and arrays are of type \<open>object\<close>.\<close>

fun typeof :: "js_value \<Rightarrow> string" where
  "typeof JUndefined = ''undefined''"
| "typeof JNull = ''object''"
| "typeof (JBool b) = ''boolean''"
| "typeof (JNum n) = ''number''"
| "typeof (JStr s) = ''string''"
| "typeof (JArr xs) = ''object''"
| "typeof (JObj kvs) = ''object''"

fun Array_isArray :: "js_value \<Rightarrow> bool" where
  "Array_isArray (JArr xs) = True"
| "Array_isArray v = False"

datatype zod_issue = ZodIssue (issue_path: "string list") (issue_message: string)

text \<open>
  What a \<open>throw\<close> or a rejected promise carries: the error classes the code
  constructs or tests with \<open>instanceof\<close>, and any other thrown value.
\<close>

datatype js_exn =
    Error string
  | TypeError string
  | AgentRPCError string
  | ZodError "zod_issue list"
  | Thrown js_value

section \<open>Tool registrations, jobs and results\<close>

text \<open>
  A handler is a JavaScript value: either a function, which settles with a returned value
  or a thrown error after some elapsed time (milliseconds), or a value that is not callable.
\<close>

datatype handler_value =
    Callable "js_value \<Rightarrow> (js_exn + js_value) \<times> nat"
  | NotCallable js_value

record 's ToolRegistrationInput =
  name :: string
  handler :: handler_value
  schema :: 's
  config :: js_value
  description :: "string option"

record JobMessage =
  job_id :: string
  job_function :: string
  input :: js_value

datatype ResultType = success | rejection

record Result =
  type :: ResultType
  content :: js_value
  functionExecutionTime :: nat

section \<open>Requests to the coordinator and the trace of effects\<close>

record createJobResult_params =
  p_jobId :: string
  p_clusterId :: "string option"
  p_result :: js_value
  p_resultType :: ResultType
  p_functionExecutionTime :: nat

record listJobs_params =
  lj_clusterId :: "string option"
  lj_tools :: string
  lj_status :: string
  lj_acknowledge :: bool
  lj_limit :: nat
  lj_waitTime :: nat

record machine_tool =
  mt_name :: string
  mt_description :: "string option"
  mt_schema :: string
  mt_config :: js_value

record createJob_params =
  cj_tool :: string
  cj_input :: js_value
  cj_clusterId :: string
  cj_waitTime :: nat

record getJob_params =
  gj_clusterId :: string
  gj_jobId :: string
  gj_waitTime :: nat

datatype rpc_request =
    CreateMachine "machine_tool list"
  | ListJobs listJobs_params
  | CreateJobResult createJobResult_params
  | CreateJob createJob_params
  | GetJob getJob_params

datatype event =
    Log string
  | LogIssue string "string list" string
  | LogFailed nat js_exn
  | LogRecovered nat
  | LogCompleted "string list"
  | Validate js_value
  | HandlerCall js_value
  | Request rpc_request
  | Sleep nat

text \<open>
  The responses of the coordinator, at the types the code reads them at. A property
  that may be absent or \<open>null\<close> is an option.
\<close>

record created_job =
  created_id :: string
  created_status :: "string option"
  created_result :: "string option"
  created_resultType :: "string option"

record job_details =
  body_status :: "string option"
  body_result :: "string option"
  body_resultType :: "string option"

text \<open>
  The shared JSON-RPC client, one method of the coordinator per field. The coordinator
  answers a request as a function of everything that has happened so far (the trace of
  effects); a rejected request is \<open>Inl\<close>.
\<close>

record JSONRPCClient =
  createMachine :: "event list \<Rightarrow> machine_tool list \<Rightarrow> js_exn + string option"
  listJobs :: "event list \<Rightarrow> listJobs_params \<Rightarrow> js_exn + JobMessage list"
  createJobResult :: "event list \<Rightarrow> createJobResult_params \<Rightarrow> js_exn + unit"
  createJob :: "event list \<Rightarrow> createJob_params \<Rightarrow> js_exn + created_job"
  getJob :: "event list \<Rightarrow> getJob_params \<Rightarrow> js_exn + job_details"

definition request ::
  "(event list \<Rightarrow> 'p \<Rightarrow> js_exn + 'r) \<Rightarrow> ('p \<Rightarrow> rpc_request) \<Rightarrow> 'p \<Rightarrow> event list
     \<Rightarrow> (js_exn + 'r) \<times> event list" where
  "request method wrap params tr = (method tr params, tr @ [Request (wrap params)])"

text \<open>Truthiness of a possibly missing string, and \<open>x || d\<close> on it.\<close>

definition falsy :: "string option \<Rightarrow> bool" where
  "falsy x = (case x of None \<Rightarrow> True | Some s \<Rightarrow> s = [])"

definition or_else :: "string option \<Rightarrow> string \<Rightarrow> string" where
  "or_else x d = (case x of None \<Rightarrow> d | Some s \<Rightarrow> if s = [] then d else s)"

text \<open>\<open>Array.prototype.join\<close> on strings.\<close>

fun join :: "string \<Rightarrow> string list \<Rightarrow> string" where
  "join sep [] = []"
| "join sep [x] = x"
| "join sep (x # y # ys) = x @ sep @ join sep (y # ys)"


section \<open>The polling agent\<close>

text \<open>
  The helpers imported from modules outside the modelled files, taken as parameters: the
  schema validator (throws or returns), the error serializer, and the conversion of a
  schema to the JSON-Schema string sent at registration.
\<close>

record 's helpers =
  validateFunctionArgs :: "'s \<Rightarrow> js_value \<Rightarrow> js_exn + js_value"
  serializeError :: "js_exn \<Rightarrow> js_value"
  schema_json :: "'s \<Rightarrow> string"

record 's PollingAgent =
  clusterId :: "string option"
  polling :: bool
  tools :: "'s ToolRegistrationInput list"
  jsonRpcClient :: JSONRPCClient
  retryAfter :: nat

definition DEFAULT_RETRY_AFTER_SECONDS :: nat where
  "DEFAULT_RETRY_AFTER_SECONDS = 0"

definition new_PollingAgent ::
  "string \<Rightarrow> 's ToolRegistrationInput list \<Rightarrow> JSONRPCClient \<Rightarrow> 's PollingAgent" where
  "new_PollingAgent cid ts client =
     \<lparr>clusterId = Some cid, polling = False, tools = ts, jsonRpcClient = client,
      retryAfter = DEFAULT_RETRY_AFTER_SECONDS\<rparr>"

text \<open>
  Modelled from the spec: \<open>executeFn\<close> of \<open>./execute-fn\<close>, which is not among
  the source files. Section 4.2: it always resolves; on success the result is
  \<open>{type: success, content: handler(...args), functionExecutionTime: elapsed}\<close>, on a
  thrown error \<open>{type: rejection, content: serialized error, functionExecutionTime:
  elapsed}\<close>. Calling a value that is not a function throws a \<open>TypeError\<close>, which the
  executor captures like any other thrown error; no handler runs then, and no time is
  counted for it. The trace records the invocation of the handler.
\<close>

definition executeFn ::
  "(js_exn \<Rightarrow> js_value) \<Rightarrow> handler_value \<Rightarrow> js_value \<Rightarrow> event list \<Rightarrow> Result \<times> event list" where
  "executeFn ser h args tr =
     (case h of
        Callable f \<Rightarrow>
          (case f args of
             (Inr v, elapsed) \<Rightarrow>
               (\<lparr>type = success, content = v, functionExecutionTime = elapsed\<rparr>,
                tr @ [HandlerCall args])
           | (Inl e, elapsed) \<Rightarrow>
               (\<lparr>type = rejection, content = ser e, functionExecutionTime = elapsed\<rparr>,
                tr @ [HandlerCall args]))
      | NotCallable v \<Rightarrow>
          (\<lparr>type = rejection, content = ser (TypeError ''handler is not a function''),
            functionExecutionTime = 0\<rparr>, tr))"

text \<open>The closure \<open>onComplete\<close> of \<open>processCall\<close>: log, then post the result.\<close>

definition onComplete ::
  "'s PollingAgent \<Rightarrow> JobMessage \<Rightarrow> Result \<Rightarrow> event list \<Rightarrow> (js_exn + unit) \<times> event list" where
  "onComplete agent call r tr =
     request (createJobResult (jsonRpcClient agent)) CreateJobResult
       \<lparr>p_jobId = job_id call, p_clusterId = clusterId agent,
        p_result = content r, p_resultType = type r,
        p_functionExecutionTime = functionExecutionTime r\<rparr>
       (tr @ [Log ''Persisting job result''])"

definition invalid_format :: string where
  "invalid_format = ''Function was called with invalid invalid format. Expected an object.''"

definition log_issues :: "js_exn \<Rightarrow> event list" where
  "log_issues e =
     (case e of
        ZodError errors \<Rightarrow>
          map (\<lambda>i. LogIssue ''Function input does not match schema''
                       (issue_path i) (issue_message i)) errors
      | _ \<Rightarrow> [])"

definition processCall ::
  "'s helpers \<Rightarrow> 's PollingAgent \<Rightarrow> JobMessage \<Rightarrow> event list
     \<Rightarrow> (js_exn + unit) \<times> event list" where
  "processCall env agent call tr =
     (case find (\<lambda>fn. name fn = job_function call) (tools agent) of
        None \<Rightarrow> (Inr (), tr @ [Log ''Received call for unknown function''])
      | Some registration \<Rightarrow>
          (let tr1 = tr @ [Log ''Executing job''];
               args = input call;
               tr2 = tr1 @ [Log ''Executing fn'']
           in if typeof args \<noteq> ''object'' \<or> Array_isArray args \<or> args = JNull then
                onComplete agent call
                  \<lparr>type = rejection,
                    content = serializeError env (Error invalid_format),
                    functionExecutionTime = 0\<rparr>
                  (tr2 @ [Log invalid_format])
              else
                (case validateFunctionArgs env (schema registration) args of
                   Inl e \<Rightarrow>
                     onComplete agent call
                       \<lparr>type = rejection, content = serializeError env e,
                         functionExecutionTime = 0\<rparr>
                       (tr2 @ [Validate args] @ log_issues e)
                 | Inr validated \<Rightarrow>
                     (case executeFn (serializeError env) (handler registration) args
                             (tr2 @ [Validate args]) of
                        (r, tr3) \<Rightarrow> onComplete agent call r tr3))))"

text \<open>
  \<open>Promise.allSettled\<close> over the batch: every job is processed, a rejected
  \<open>processCall\<close> becomes the status \<open>rejected\<close> and stops nothing. The jobs of a
  batch are taken one after the other here; each job's own sequence of effects is the
  one of the code, the interleaving of sibling jobs is not represented.
\<close>

fun allSettled ::
  "'s helpers \<Rightarrow> 's PollingAgent \<Rightarrow> JobMessage list \<Rightarrow> event list
     \<Rightarrow> string list \<times> event list" where
  "allSettled env agent [] tr = ([], tr)"
| "allSettled env agent (job # jobs) tr =
     (case processCall env agent job tr of
        (r, tr1) \<Rightarrow>
          (case allSettled env agent jobs tr1 of
             (rs, tr2) \<Rightarrow>
               ((case r of Inl e \<Rightarrow> ''rejected'' | Inr u \<Rightarrow> ''fulfilled'') # rs, tr2)))"

definition pollIteration ::
  "'s helpers \<Rightarrow> 's PollingAgent \<Rightarrow> event list \<Rightarrow> (js_exn + unit) \<times> event list" where
  "pollIteration env agent tr =
     (if falsy (clusterId agent) then
        (Inl (Error ''Failed to poll. Could not find clusterId''), tr)
      else
        (case request (listJobs (jsonRpcClient agent)) ListJobs
                \<lparr>lj_clusterId = clusterId agent,
                 lj_tools = join '','' (map name (tools agent)),
                 lj_status = ''pending'', lj_acknowledge = True,
                 lj_limit = 10, lj_waitTime = 20\<rparr> tr of
           (Inl e, tr1) \<Rightarrow> (Inl e, tr1)
         | (Inr pollResult, tr1) \<Rightarrow>
             (case allSettled env agent pollResult tr1 of
                (results, tr2) \<Rightarrow>
                  (Inr (), if length results > 0 then tr2 @ [LogCompleted results] else tr2))))"

definition stop :: "'s PollingAgent \<Rightarrow> event list \<Rightarrow> 's PollingAgent \<times> event list" where
  "stop agent tr = (agent\<lparr>polling := False\<rparr>, tr @ [Log ''Stopping polling agent''])"

text \<open>
  The state of \<open>runLoop\<close>: the agent (whose \<open>polling\<close> flag \<open>stop()\<close> clears),
  the local \<open>failureCount\<close>, and the trace.
\<close>

record 's loop_state =
  agent :: "'s PollingAgent"
  failureCount :: nat
  trace :: "event list"

text \<open>
  The \<open>try\<close> statement of the loop body: the poll iteration, then either the recovery
  branch or the \<open>catch\<close> branch.
\<close>

definition try_pollIteration :: "'s helpers \<Rightarrow> 's loop_state \<Rightarrow> 's loop_state" where
  "try_pollIteration env st =
     (case pollIteration env (agent st) (trace st) of
        (Inr u, tr1) \<Rightarrow>
          (if failureCount st > 0 then
             st\<lparr>failureCount := 0, trace := tr1 @ [LogRecovered (failureCount st)]\<rparr>
           else st\<lparr>trace := tr1\<rparr>)
      | (Inl e, tr1) \<Rightarrow>
          st\<lparr>failureCount := failureCount st + 1,
             trace := tr1 @ [LogFailed (failureCount st) e]\<rparr>)"

text \<open>
  The timer at the end of the body. The loop is suspended at its awaits, and the
  embedding application may call \<open>stop()\<close> on the agent meanwhile: \<open>stop_called\<close>
  tells, from the trace at the end of the pass, whether it has. The flag is read again
  only by the loop condition, so one test at the end of the pass covers all its awaits.
\<close>

definition sleep_step :: "(event list \<Rightarrow> bool) \<Rightarrow> 's loop_state \<Rightarrow> 's loop_state" where
  "sleep_step stop_called st =
     (let tr2 = trace st @ [Sleep (retryAfter (agent st) * 1000)]
      in if stop_called tr2 then
           (case stop (agent st) tr2 of (a, tr3) \<Rightarrow> st\<lparr>agent := a, trace := tr3\<rparr>)
         else st\<lparr>trace := tr2\<rparr>)"

definition loop_body :: "'s helpers \<Rightarrow> (event list \<Rightarrow> bool) \<Rightarrow> 's loop_state \<Rightarrow> 's loop_state" where
  "loop_body env stop_called st = sleep_step stop_called (try_pollIteration env st)"

partial_function (option) runLoop_while ::
  "'s helpers \<Rightarrow> (event list \<Rightarrow> bool) \<Rightarrow> 's loop_state \<Rightarrow> 's loop_state option" where
  "runLoop_while env stop_called st =
     (if polling (agent st) then runLoop_while env stop_called (loop_body env stop_called st)
      else Some st)"

definition runLoop ::
  "'s helpers \<Rightarrow> (event list \<Rightarrow> bool) \<Rightarrow> 's PollingAgent \<Rightarrow> event list \<Rightarrow> 's loop_state option" where
  "runLoop env stop_called a tr =
     runLoop_while env stop_called \<lparr>agent = a\<lparr>polling := True\<rparr>, failureCount = 0, trace = tr\<rparr>"

text \<open>
  \<open>registerMachine\<close> and \<open>start\<close>. \<open>start\<close> awaits the registration and then
  calls \<open>runLoop\<close> without awaiting it: when \<open>start\<close> returns, the loop has set
  \<open>polling\<close> and is suspended in its first poll; it goes on as \<open>runLoop\<close> above.
\<close>

definition registerMachine ::
  "'s helpers \<Rightarrow> JSONRPCClient \<Rightarrow> 's ToolRegistrationInput list \<Rightarrow> event list
     \<Rightarrow> (js_exn + string option) \<times> event list" where
  "registerMachine env client ts tr =
     request (createMachine client) CreateMachine
       (map (\<lambda>func. \<lparr>mt_name = name func, mt_description = description func,
                      mt_schema = schema_json env (schema func),
                      mt_config = config func\<rparr>) ts)
       (tr @ [Log ''registering machine''])"

definition start ::
  "'s helpers \<Rightarrow> 's PollingAgent \<Rightarrow> event list \<Rightarrow> (js_exn + unit) \<times> 's PollingAgent \<times> event list" where
  "start env a tr =
     (case registerMachine env (jsonRpcClient a) (tools a) (tr @ [Log ''Starting polling agent'']) of
        (Inl e, tr1) \<Rightarrow> (Inl e, a, tr1)
      | (Inr registerResult, tr1) \<Rightarrow> (Inr (), a\<lparr>polling := True\<rparr>, tr1))"

section \<open>Creating a job and polling for its completion\<close>







section \<open>The client facade\<close>

text \<open>\<open>String.prototype.split\<close> with a one-character separator.\<close>

fun split :: "char \<Rightarrow> string \<Rightarrow> string list" where
  "split sep [] = [[]]"
| "split sep (c # cs) =
     (if c = sep then [] # split sep cs
      else (case split sep cs of
              [] \<Rightarrow> [[c]]
            | part # parts \<Rightarrow> (c # part) # parts))"

text \<open>Reading an array element: \<open>undefined\<close> beyond the end.\<close>

definition element :: "'a list \<Rightarrow> nat \<Rightarrow> 'a option" where
  "element xs i = (if i < length xs then Some (xs ! i) else None)"

text \<open>
  \<open>toolsRegistry\<close> is a plain object used as a dictionary: its own properties in
  insertion order. Reading a property also finds the ones inherited from
  \<open>Object.prototype\<close>, all of which are truthy; assigning \<open>__proto__\<close> creates
  no own property. \<open>Object.values\<close> lists the array-index keys first, in ascending order,
  then the others in insertion order.
\<close>

definition Object_prototype_properties :: "string list" where
  "Object_prototype_properties =
     [''constructor'', ''__defineGetter__'', ''__defineSetter__'', ''hasOwnProperty'',
      ''__lookupGetter__'', ''__lookupSetter__'', ''isPrototypeOf'',
      ''propertyIsEnumerable'', ''toString'', ''valueOf'', ''__proto__'',
      ''toLocaleString'']"

definition truthy_property :: "(string \<times> 'a) list \<Rightarrow> string \<Rightarrow> bool" where
  "truthy_property obj k = (map_of obj k \<noteq> None \<or> k \<in> set Object_prototype_properties)"

definition set_property :: "(string \<times> 'a) list \<Rightarrow> string \<Rightarrow> 'a \<Rightarrow> (string \<times> 'a) list" where
  "set_property obj k v =
     (if k = ''__proto__'' then obj
      else if map_of obj k \<noteq> None then map (\<lambda>(k', v'). if k' = k then (k', v) else (k', v')) obj
      else obj @ [(k, v)])"

definition array_index :: "string \<Rightarrow> nat option" where
  "array_index s =
     (if s \<noteq> [] \<and> list_all (\<lambda>c. c \<in> set ''0123456789'') s \<and> (s = ''0'' \<or> hd s \<noteq> CHR ''0'') then
        (let n = foldl (\<lambda>a c. 10 * a + (of_char c - 48)) (0::nat) s
         in if n < 2 ^ 32 - 1 then Some n else None)
      else None)"

definition Object_values :: "(string \<times> 'a) list \<Rightarrow> 'a list" where
  "Object_values obj =
     map snd
       (sort_key (\<lambda>kv. case array_index (fst kv) of None \<Rightarrow> 0 | Some n \<Rightarrow> n)
          (filter (\<lambda>kv. array_index (fst kv) \<noteq> None) obj)
        @ filter (\<lambda>kv. array_index (fst kv) = None) obj)"

record options =
  opt_apiSecret :: "string option"
  opt_endpoint :: "string option"
  opt_machineId :: "string option"
  opt_mcpUuid :: "string option"
  opt_mcpApp :: "string option"
  opt_mcpSessionId :: "string option"
  opt_mcpChatId :: "string option"

record 's AgentRPC =
  clusterId' :: string
  apiSecret :: string
  endpoint :: string
  machineId :: string
  jsonRpcClient' :: JSONRPCClient
  pollingAgents :: "'s PollingAgent list"
  toolsRegistry :: "(string \<times> 's ToolRegistrationInput) list"

text \<open>
  The constructor. The transport behind the JSON-RPC client and the generated machine
  id (\<open>machineId()\<close>) come from outside and are parameters. \<open>Inl\<close> is the error
  thrown by \<open>new AgentRPC(options)\<close>.
\<close>

definition new_AgentRPC :: "JSONRPCClient \<Rightarrow> string \<Rightarrow> options option \<Rightarrow> js_exn + 's AgentRPC" where
  "new_AgentRPC transport generated_machineId opts =
     (case Option.bind opts opt_apiSecret of
        None \<Rightarrow> Inl (AgentRPCError ''No API Secret provided.'')
      | Some secret \<Rightarrow>
          if secret = [] then Inl (AgentRPCError ''No API Secret provided.'')
          else
            (let parts = split CHR ''_'' secret;
                 prefix = element parts 0;
                 cid = element parts 1;
                 rand = element parts 2
             in if prefix \<noteq> Some ''sk'' \<or> falsy cid \<or> falsy rand then
                  Inl (AgentRPCError ''Invalid API Secret.'')
                else
                  (let ep = or_else (Option.bind opts opt_endpoint) ''https://api.agentrpc.com'';
                       mcpUuid = Option.bind opts opt_mcpUuid
                   in if ep \<noteq> ''https://api.agentrpc.com'' \<and> falsy mcpUuid then
                        Inl (AgentRPCError ''mcpUuid is required when a custom endpoint is provided.'')
                      else
                        Inr \<lparr>clusterId' = (case cid of None \<Rightarrow> [] | Some c \<Rightarrow> c),
                             apiSecret = secret,
                             endpoint = ep,
                             machineId = or_else (Option.bind opts opt_machineId) generated_machineId,
                             jsonRpcClient' = transport,
                             pollingAgents = [],
                             toolsRegistry = []\<rparr>)))"

definition getClusterId :: "'s AgentRPC \<Rightarrow> string" where
  "getClusterId rpc = clusterId' rpc"

text \<open>
  \<open>register\<close>, \<open>listen\<close> and \<open>unlisten\<close> return what the call throws or rejects with
  (\<open>Inl\<close>) together with the facade afterwards, so that what a failed call leaves behind
  can be stated.
\<close>

definition register :: "'s ToolRegistrationInput \<Rightarrow> 's AgentRPC \<Rightarrow> (js_exn + unit) \<times> 's AgentRPC" where
  "register registration rpc =
     (if truthy_property (toolsRegistry rpc) (name registration) then
        (Inl (AgentRPCError (''Tool name '' @ [CHR 0x27] @ name registration @ [CHR 0x27]
                              @ '' is already registered.'')), rpc)
      else if length (pollingAgents rpc) > 0 then
        (Inl (AgentRPCError ''Tools must be registered before starting the listener.''), rpc)
      else if (case handler registration of Callable f \<Rightarrow> False | NotCallable v \<Rightarrow> True) then
        (Inl (AgentRPCError ''handler must be a function.''), rpc)
      else
        (Inr (), rpc\<lparr>toolsRegistry :=
                        set_property (toolsRegistry rpc) (name registration) registration\<rparr>))"

definition listen ::
  "'s helpers \<Rightarrow> 's AgentRPC \<Rightarrow> event list \<Rightarrow> (js_exn + unit) \<times> 's AgentRPC \<times> event list" where
  "listen env rpc tr =
     (if length (pollingAgents rpc) > 0 then
        (Inl (AgentRPCError ''Tools already listening''), rpc, tr)
      else
        (case start env
                (new_PollingAgent (clusterId' rpc) (Object_values (toolsRegistry rpc))
                   (jsonRpcClient' rpc)) tr of
           (r, a, tr1) \<Rightarrow> (r, rpc\<lparr>pollingAgents := pollingAgents rpc @ [a]\<rparr>, tr1)))"

fun stop_all :: "'s PollingAgent list \<Rightarrow> event list \<Rightarrow> 's PollingAgent list \<times> event list" where
  "stop_all [] tr = ([], tr)"
| "stop_all (a # as) tr =
     (case stop a tr of (a', tr1) \<Rightarrow> (case stop_all as tr1 of (as', tr2) \<Rightarrow> (a' # as', tr2)))"

definition unlisten :: "'s AgentRPC \<Rightarrow> event list \<Rightarrow> (js_exn + unit) \<times> 's AgentRPC \<times> event list" where
  "unlisten rpc tr =
     (case stop_all (pollingAgents rpc) tr of
        (as, tr1) \<Rightarrow> (Inr (), rpc\<lparr>pollingAgents := as\<rparr>, tr1))"

text \<open>
  The calls an application can make on a facade, and a sequence of them. A call that
  throws leaves the facade as that call left it and the application goes on.
\<close>

datatype 's facade_call = Register "'s ToolRegistrationInput" | Listen | Unlisten

fun facade_step ::
  "'s helpers \<Rightarrow> 's facade_call \<Rightarrow> 's AgentRPC \<times> event list \<Rightarrow> 's AgentRPC \<times> event list" where
  "facade_step env (Register registration) (rpc, tr) = (snd (register registration rpc), tr)"
| "facade_step env Listen (rpc, tr) = snd (listen env rpc tr)"
| "facade_step env Unlisten (rpc, tr) = snd (unlisten rpc tr)"

fun facade_run ::
  "'s helpers \<Rightarrow> 's facade_call list \<Rightarrow> 's AgentRPC \<times> event list \<Rightarrow> 's AgentRPC \<times> event list" where
  "facade_run env [] s = s"
| "facade_run env (c # cs) s = facade_run env cs (facade_step env c s)"

text \<open>The credential format in the words of the specification.\<close>

definition well_formed_secret :: "string \<Rightarrow> bool" where
  "well_formed_secret secret =
     (case split CHR ''_'' secret of
        p # c # r # others \<Rightarrow> p = ''sk'' \<and> c \<noteq> [] \<and> r \<noteq> []
      | _ \<Rightarrow> False)"

text \<open>What an observer of the trace sees of one job.\<close>

definition handler_calls :: "event list \<Rightarrow> js_value list" where
  "handler_calls tr = concat (map (\<lambda>e. case e of HandlerCall a \<Rightarrow> [a] | _ \<Rightarrow> []) tr)"

definition validations :: "event list \<Rightarrow> js_value list" where
  "validations tr = concat (map (\<lambda>e. case e of Validate a \<Rightarrow> [a] | _ \<Rightarrow> []) tr)"

definition requests :: "event list \<Rightarrow> rpc_request list" where
  "requests tr = concat (map (\<lambda>e. case e of Request r \<Rightarrow> [r] | _ \<Rightarrow> []) tr)"

definition reported :: "event list \<Rightarrow> createJobResult_params list" where
  "reported tr =
     concat (map (\<lambda>r. case r of CreateJobResult p \<Rightarrow> [p] | _ \<Rightarrow> []) (requests tr))"


text \<open>
  The trace after \<open>n\<close> further passes of the polling loop: each pass sends one
  \<open>getJob\<close> request and then sleeps.
\<close>

definition poll_trace :: "event list \<Rightarrow> getJob_params \<Rightarrow> nat \<Rightarrow> event list" where
  "poll_trace tr p n = tr @ concat (replicate n [Request (GetJob p), Sleep 1000])"

section \<open>A concrete agent\<close>

text \<open>
  A small instance on which the properties below are also evaluated: a schema is the list
  of the required keys, the coordinator accepts everything and has no pending jobs.
\<close>

definition example_client :: JSONRPCClient where
  "example_client =
     \<lparr>createMachine = (\<lambda>tr ts. Inr (Some ''c1'')),
      listJobs = (\<lambda>tr p. Inr []),
      createJobResult = (\<lambda>tr p. Inr ()),
      createJob = (\<lambda>tr p. Inr \<lparr>created_id = ''j1'', created_status = Some ''pending'',
                                 created_result = None, created_resultType = None\<rparr>),
      getJob = (\<lambda>tr p. Inr \<lparr>body_status = Some ''done'', body_result = Some ''ok'',
                              body_resultType = Some ''resolution''\<rparr>)\<rparr>"

definition example_helpers :: "string list helpers" where
  "example_helpers =
     \<lparr>validateFunctionArgs =
        (\<lambda>required args.
           case args of
             JObj kvs \<Rightarrow>
               if list_all (\<lambda>k. map_of kvs k \<noteq> None) required then Inr args
               else Inl (ZodError [ZodIssue required ''Required''])
           | _ \<Rightarrow> Inl (ZodError [ZodIssue [] ''Expected object''])),
      serializeError =
        (\<lambda>e. case e of
               Error m \<Rightarrow> JObj [(''name'', JStr ''Error''), (''message'', JStr m)]
             | TypeError m \<Rightarrow> JObj [(''name'', JStr ''TypeError''), (''message'', JStr m)]
             | AgentRPCError m \<Rightarrow> JObj [(''name'', JStr ''AgentRPCError''), (''message'', JStr m)]
             | ZodError issues \<Rightarrow>
                 JObj [(''name'', JStr ''ZodError''),
                       (''issues'', JArr (map (\<lambda>i. JStr (issue_message i)) issues))]
             | Thrown v \<Rightarrow> JObj [(''name'', JStr ''Error''), (''value'', v)]),
      schema_json = (\<lambda>required. concat required)\<rparr>"

definition example_tool :: "string list ToolRegistrationInput" where
  "example_tool =
     \<lparr>name = ''hello'',
      handler = Callable (\<lambda>v. (Inr (JStr ''Hello''), 3)),
      schema = [''name''],
      config = JNull,
      description = None\<rparr>"

definition example_agent :: "string list PollingAgent" where
  "example_agent = new_PollingAgent ''c1'' [example_tool] example_client"

definition example_facade :: "string list AgentRPC" where
  "example_facade =
     \<lparr>clusterId' = ''c1'', apiSecret = ''sk_c1_x'', endpoint = ''https://api.agentrpc.com'',
      machineId = ''m1'', jsonRpcClient' = example_client, pollingAgents = [],
      toolsRegistry = []\<rparr>"

definition example_options :: "string \<Rightarrow> options option" where
  "example_options secret =
     Some \<lparr>opt_apiSecret = Some secret, opt_endpoint = None, opt_machineId = None,
            opt_mcpUuid = None, opt_mcpApp = None, opt_mcpSessionId = None,
            opt_mcpChatId = None\<rparr>"

definition example_registered :: "string list AgentRPC" where
  "example_registered = snd (register example_tool example_facade)"

definition example_listening :: "string list AgentRPC \<times> event list" where
  "example_listening = snd (listen example_helpers example_registered [])"

definition example_other_tool :: "string list ToolRegistrationInput" where
  "example_other_tool = example_tool\<lparr>name := ''other''\<rparr>"

definition sleeps :: "event list \<Rightarrow> nat" where
  "sleeps tr = length (filter (\<lambda>e. case e of Sleep n \<Rightarrow> True | _ \<Rightarrow> False) tr)"

definition example_stop :: "event list \<Rightarrow> bool" where
  "example_stop tr = (2 \<le> sleeps tr)"

definition example_flaky_client :: JSONRPCClient where
  "example_flaky_client =
     example_client\<lparr>listJobs :=
       (\<lambda>tr p. if requests tr = [] then Inl (Error ''Service Unavailable'') else Inr [])\<rparr>"

definition example_flaky_agent :: "string list PollingAgent" where
  "example_flaky_agent = new_PollingAgent ''c1'' [example_tool] example_flaky_client"

definition example_lost_agent :: "string list PollingAgent" where
  "example_lost_agent = example_agent\<lparr>clusterId := None\<rparr>"

definition example_flaky_start :: "string list loop_state" where
  "example_flaky_start =
     \<lparr>agent = example_flaky_agent\<lparr>polling := True\<rparr>, failureCount = 0, trace = []\<rparr>"

definition example_lost_start :: "string list loop_state" where
  "example_lost_start =
     \<lparr>agent = example_lost_agent\<lparr>polling := True\<rparr>, failureCount = 0, trace = []\<rparr>"






section \<open>Properties of job processing\<close>

lemma handler_calls_append: "handler_calls (xs @ ys) = handler_calls xs @ handler_calls ys"
  by (simp add: handler_calls_def)

lemma validations_append: "validations (xs @ ys) = validations xs @ validations ys"
  by (simp add: validations_def)

lemma requests_append: "requests (xs @ ys) = requests xs @ requests ys"
  by (simp add: requests_def)

lemma reported_append: "reported (xs @ ys) = reported xs @ reported ys"
  by (simp add: reported_def requests_append)

lemma handler_calls_log_issues: "handler_calls (log_issues e) = []"
  by (cases e) (simp_all add: log_issues_def handler_calls_def o_def)

lemma validations_log_issues: "validations (log_issues e) = []"
  by (cases e) (simp_all add: log_issues_def validations_def o_def)

lemma requests_log_issues: "requests (log_issues e) = []"
  by (cases e) (simp_all add: log_issues_def requests_def o_def)

lemma handler_calls_Cons:
  "handler_calls (x # xs) = (case x of HandlerCall a \<Rightarrow> [a] | _ \<Rightarrow> []) @ handler_calls xs"
  "handler_calls [] = []"
  by (simp_all add: handler_calls_def)

lemma validations_Cons:
  "validations (x # xs) = (case x of Validate a \<Rightarrow> [a] | _ \<Rightarrow> []) @ validations xs"
  "validations [] = []"
  by (simp_all add: validations_def)

lemma requests_Cons:
  "requests (x # xs) = (case x of Request r \<Rightarrow> [r] | _ \<Rightarrow> []) @ requests xs"
  "requests [] = []"
  by (simp_all add: requests_def)

lemma reported_Cons:
  "reported (x # xs) =
     (case x of Request (CreateJobResult p) \<Rightarrow> [p] | _ \<Rightarrow> []) @ reported xs"
  "reported [] = []"
  by (simp_all add: reported_def requests_def split: event.split rpc_request.split)

lemma reported_log_issues: "reported (log_issues e) = []"
  by (simp add: reported_def requests_log_issues)

lemmas observe =
  handler_calls_append validations_append requests_append reported_append
  handler_calls_Cons validations_Cons requests_Cons reported_Cons
  handler_calls_log_issues validations_log_issues requests_log_issues reported_log_issues

lemma snd_onComplete:
  "snd (onComplete a call r tr) =
     tr @ [Log ''Persisting job result'',
           Request (CreateJobResult
             \<lparr>p_jobId = job_id call, p_clusterId = clusterId a, p_result = content r,
              p_resultType = type r, p_functionExecutionTime = functionExecutionTime r\<rparr>)]"
  by (simp add: onComplete_def request_def)

text \<open>
  Claim C4. A job whose function name matches no registered tool is logged and dropped:
  processing it adds one log entry to the trace and nothing else, so no request goes to the
  coordinator (in particular no \<open>createJobResult\<close>) and no handler is invoked.
\<close>

theorem unknown_function_dropped:
  assumes "\<forall>fn \<in> set (tools a). name fn \<noteq> job_function call"
  shows "processCall env a call tr = (Inr (), tr @ [Log ''Received call for unknown function''])
       \<and> requests (snd (processCall env a call tr)) = requests tr
       \<and> handler_calls (snd (processCall env a call tr)) = handler_calls tr"
proof -
  from assms have "find (\<lambda>fn. name fn = job_function call) (tools a) = None"
    by (simp add: find_None_iff)
  then have "processCall env a call tr = (Inr (), tr @ [Log ''Received call for unknown function''])"
    by (simp add: processCall_def)
  then show ?thesis
    by (simp add: requests_def handler_calls_def)
qed

theorem unknown_function_dropped_witness:
  "processCall example_helpers example_agent
        \<lparr>job_id = ''j1'', job_function = ''nope'', input = JNull\<rparr> []
      = (Inr (), [Log ''Received call for unknown function''])"
proof -
  have h: "\<forall>fn \<in> set (tools example_agent).
             name fn \<noteq> job_function \<lparr>job_id = ''j1'', job_function = ''nope'', input = JNull\<rparr>"
    by (simp add: example_agent_def new_PollingAgent_def example_tool_def)
  from unknown_function_dropped [OF h, of example_helpers "[]"] show ?thesis
    by simp
qed

text \<open>
  Claim C2. For a job of a registered tool whose input is \<open>null\<close>, an array, or not
  of type object (a primitive, or missing), exactly one result is reported, of type
  rejection, carrying the serialized error with the invalid-format message; neither the
  schema validator nor the handler is invoked.
\<close>

theorem invalid_shape_rejected:
  assumes "find (\<lambda>fn. name fn = job_function call) (tools a) = Some registration"
    and "input call = JNull \<or> Array_isArray (input call) \<or> typeof (input call) \<noteq> ''object''"
  shows "reported (snd (processCall env a call tr)) =
           reported tr @ [\<lparr>p_jobId = job_id call, p_clusterId = clusterId a,
                            p_result = serializeError env (Error invalid_format),
                            p_resultType = rejection, p_functionExecutionTime = 0\<rparr>]
       \<and> validations (snd (processCall env a call tr)) = validations tr
       \<and> handler_calls (snd (processCall env a call tr)) = handler_calls tr"
proof -
  from assms have "snd (processCall env a call tr) =
      tr @ [Log ''Executing job'', Log ''Executing fn'', Log invalid_format,
            Log ''Persisting job result'',
            Request (CreateJobResult
              \<lparr>p_jobId = job_id call, p_clusterId = clusterId a,
               p_result = serializeError env (Error invalid_format),
               p_resultType = rejection, p_functionExecutionTime = 0\<rparr>)]"
    by (auto simp add: processCall_def snd_onComplete Let_def)
  then show ?thesis
    by (simp add: reported_def requests_def validations_def handler_calls_def)
qed

theorem invalid_shape_rejected_witness:
  "find (\<lambda>fn. name fn = ''hello'') (tools example_agent) = Some example_tool
   \<and> reported (snd (processCall example_helpers example_agent
        \<lparr>job_id = ''j1'', job_function = ''hello'', input = JArr []\<rparr> []))
      = [\<lparr>p_jobId = ''j1'', p_clusterId = Some ''c1'',
          p_result = JObj [(''name'', JStr ''Error''), (''message'', JStr invalid_format)],
          p_resultType = rejection, p_functionExecutionTime = 0\<rparr>]"
proof -
  let ?call = "\<lparr>job_id = ''j1'', job_function = ''hello'', input = JArr []\<rparr>"
  have h1: "find (\<lambda>fn. name fn = job_function ?call) (tools example_agent) = Some example_tool"
    by (simp add: example_agent_def new_PollingAgent_def example_tool_def)
  have h2: "input ?call = JNull \<or> Array_isArray (input ?call) \<or> typeof (input ?call) \<noteq> ''object''"
    by simp
  from invalid_shape_rejected [OF h1 h2, of example_helpers "[]"] h1 show ?thesis
    by (simp add: reported_def requests_def example_agent_def new_PollingAgent_def
          example_helpers_def)
qed

lemma processCall_valid_shape:
  assumes "find (\<lambda>fn. name fn = job_function call) (tools a) = Some registration"
    and "typeof (input call) = ''object''" "\<not> Array_isArray (input call)" "input call \<noteq> JNull"
  shows "processCall env a call tr =
     (case validateFunctionArgs env (schema registration) (input call) of
        Inl e \<Rightarrow>
          onComplete a call
            \<lparr>type = rejection, content = serializeError env e, functionExecutionTime = 0\<rparr>
            (tr @ [Log ''Executing job'', Log ''Executing fn'', Validate (input call)] @ log_issues e)
      | Inr validated \<Rightarrow>
          (case executeFn (serializeError env) (handler registration) (input call)
                  (tr @ [Log ''Executing job'', Log ''Executing fn'', Validate (input call)]) of
             (r, tr3) \<Rightarrow> onComplete a call r tr3))"
  using assms by (simp add: processCall_def Let_def split: sum.split)

text \<open>
  Claim C3. For a job of a registered tool whose input is a well-formed object (of type
  object, not an array, not \<open>null\<close>) on which the schema validator throws, exactly one
  result is reported, of type rejection, whose content is the serialization of the thrown
  validation error; the validator has run once and the handler is not invoked.
\<close>

theorem schema_failure_rejected:
  assumes "find (\<lambda>fn. name fn = job_function call) (tools a) = Some registration"
    and "typeof (input call) = ''object''" "\<not> Array_isArray (input call)" "input call \<noteq> JNull"
    and "validateFunctionArgs env (schema registration) (input call) = Inl e"
  shows "reported (snd (processCall env a call tr)) =
           reported tr @ [\<lparr>p_jobId = job_id call, p_clusterId = clusterId a,
                            p_result = serializeError env e,
                            p_resultType = rejection, p_functionExecutionTime = 0\<rparr>]
       \<and> validations (snd (processCall env a call tr)) = validations tr @ [input call]
       \<and> handler_calls (snd (processCall env a call tr)) = handler_calls tr"
proof -
  have "snd (processCall env a call tr) =
      (tr @ [Log ''Executing job'', Log ''Executing fn'', Validate (input call)] @ log_issues e)
       @ [Log ''Persisting job result'',
          Request (CreateJobResult
              \<lparr>p_jobId = job_id call, p_clusterId = clusterId a,
               p_result = serializeError env e,
               p_resultType = rejection, p_functionExecutionTime = 0\<rparr>)]"
    using assms by (simp add: processCall_valid_shape snd_onComplete)
  then show ?thesis
    by (simp add: observe)
qed

theorem schema_failure_rejected_witness:
  "reported (snd (processCall example_helpers example_agent
        \<lparr>job_id = ''j2'', job_function = ''hello'', input = JObj []\<rparr> []))
      = [\<lparr>p_jobId = ''j2'', p_clusterId = Some ''c1'',
          p_result = JObj [(''name'', JStr ''ZodError''), (''issues'', JArr [JStr ''Required''])],
          p_resultType = rejection, p_functionExecutionTime = 0\<rparr>]
   \<and> handler_calls (snd (processCall example_helpers example_agent
        \<lparr>job_id = ''j2'', job_function = ''hello'', input = JObj []\<rparr> [])) = []"
proof -
  let ?call = "\<lparr>job_id = ''j2'', job_function = ''hello'', input = JObj []\<rparr>"
  have h1: "find (\<lambda>fn. name fn = job_function ?call) (tools example_agent) = Some example_tool"
    by (simp add: example_agent_def new_PollingAgent_def example_tool_def)
  have h2: "typeof (input ?call) = ''object''" "\<not> Array_isArray (input ?call)"
    "input ?call \<noteq> JNull"
    by simp_all
  have h3: "validateFunctionArgs example_helpers (schema example_tool) (input ?call)
              = Inl (ZodError [ZodIssue [''name''] ''Required''])"
    by (simp add: example_helpers_def example_tool_def)
  from schema_failure_rejected [OF h1 h2 h3, of "[]"] show ?thesis
    by (simp add: observe example_agent_def new_PollingAgent_def example_helpers_def)
qed




text \<open>
  Claim C10. A job rejected before the handler is invoked, for the shape of its input or
  because the schema validator throws, is reported with \<open>functionExecutionTime\<close> equal
  to 0.
\<close>

theorem rejected_before_handler_time_zero:
  assumes "find (\<lambda>fn. name fn = job_function call) (tools a) = Some registration"
    and "(input call = JNull \<or> Array_isArray (input call) \<or> typeof (input call) \<noteq> ''object'')
         \<or> (\<exists>e. validateFunctionArgs env (schema registration) (input call) = Inl e)"
  shows "\<exists>p. reported (snd (processCall env a call tr)) = reported tr @ [p]
            \<and> p_jobId p = job_id call
            \<and> p_resultType p = rejection
            \<and> p_functionExecutionTime p = 0"
proof (cases "input call = JNull \<or> Array_isArray (input call) \<or> typeof (input call) \<noteq> ''object''")
  case True
  with assms(1) have "snd (processCall env a call tr) =
      tr @ [Log ''Executing job'', Log ''Executing fn'', Log invalid_format,
            Log ''Persisting job result'',
            Request (CreateJobResult
              \<lparr>p_jobId = job_id call, p_clusterId = clusterId a,
               p_result = serializeError env (Error invalid_format),
               p_resultType = rejection, p_functionExecutionTime = 0\<rparr>)]"
    by (auto simp add: processCall_def snd_onComplete Let_def)
  then show ?thesis
    by (simp add: observe)
next
  case False
  with assms(2) obtain e where e: "validateFunctionArgs env (schema registration) (input call) = Inl e"
    by blast
  from False have shape: "typeof (input call) = ''object''" "\<not> Array_isArray (input call)"
      "input call \<noteq> JNull"
    by simp_all
  have "snd (processCall env a call tr) =
      (tr @ [Log ''Executing job'', Log ''Executing fn'', Validate (input call)] @ log_issues e)
       @ [Log ''Persisting job result'',
          Request (CreateJobResult
              \<lparr>p_jobId = job_id call, p_clusterId = clusterId a,
               p_result = serializeError env e,
               p_resultType = rejection, p_functionExecutionTime = 0\<rparr>)]"
    using assms(1) shape e by (simp add: processCall_valid_shape snd_onComplete)
  then have "reported (snd (processCall env a call tr)) =
      reported tr @ [\<lparr>p_jobId = job_id call, p_clusterId = clusterId a,
               p_result = serializeError env e,
               p_resultType = rejection, p_functionExecutionTime = 0\<rparr>]"
    by (simp add: observe)
  then show ?thesis by simp
qed


theorem rejected_before_handler_time_zero_witness:
  "map p_functionExecutionTime
     (reported (snd (processCall example_helpers example_agent
        \<lparr>job_id = ''j4'', job_function = ''hello'', input = JNum 5\<rparr> []))) = [0]"
proof -
  let ?call = "\<lparr>job_id = ''j4'', job_function = ''hello'', input = JNum 5\<rparr>"
  have h1: "find (\<lambda>fn. name fn = job_function ?call) (tools example_agent) = Some example_tool"
    by (simp add: example_agent_def new_PollingAgent_def example_tool_def)
  have h2: "(input ?call = JNull \<or> Array_isArray (input ?call) \<or> typeof (input ?call) \<noteq> ''object'')
         \<or> (\<exists>e. validateFunctionArgs example_helpers (schema example_tool) (input ?call) = Inl e)"
    by simp
  from rejected_before_handler_time_zero [OF h1 h2, of "[]"] obtain p where
    "reported (snd (processCall example_helpers example_agent ?call [])) = reported [] @ [p]"
    "p_functionExecutionTime p = 0"
    by blast
  then show ?thesis
    by (simp add: observe)
qed

section \<open>Properties of the facade\<close>

lemma well_formed_secret_iff:
  "well_formed_secret secret \<longleftrightarrow>
     element (split CHR ''_'' secret) 0 = Some ''sk''
     \<and> \<not> falsy (element (split CHR ''_'' secret) 1)
     \<and> \<not> falsy (element (split CHR ''_'' secret) 2)"
  by (auto simp add: well_formed_secret_def element_def falsy_def split: list.splits)

text \<open>
  Claim C9. The constructor throws a configuration error when no credential is given and
  when the credential, split at underscores, is not \<open>sk\<close> followed by a non-empty
  cluster id and a non-empty third segment; whenever it returns a client, the credential
  has that form and \<open>getClusterId\<close> returns its second segment.
\<close>

theorem constructor_credential:
  "(Option.bind opts opt_apiSecret = None \<longrightarrow>
      new_AgentRPC transport mid opts = Inl (AgentRPCError ''No API Secret provided.''))
   \<and> (\<forall>secret. Option.bind opts opt_apiSecret = Some secret \<and> \<not> well_formed_secret secret \<longrightarrow>
         (\<exists>msg. new_AgentRPC transport mid opts = Inl (AgentRPCError msg)))
   \<and> (\<forall>rpc. new_AgentRPC transport mid opts = Inr rpc \<longrightarrow>
         (\<exists>secret. Option.bind opts opt_apiSecret = Some secret \<and> well_formed_secret secret
            \<and> element (split CHR ''_'' secret) 1 = Some (getClusterId rpc)))"
proof (intro conjI allI impI)
  show "new_AgentRPC transport mid opts = Inl (AgentRPCError ''No API Secret provided.'')"
    if "Option.bind opts opt_apiSecret = None"
    using that by (simp add: new_AgentRPC_def)
  show "\<exists>msg. new_AgentRPC transport mid opts = Inl (AgentRPCError msg)"
    if "Option.bind opts opt_apiSecret = Some secret \<and> \<not> well_formed_secret secret" for secret
    using that by (simp add: new_AgentRPC_def well_formed_secret_iff Let_def)
  show "\<exists>secret. Option.bind opts opt_apiSecret = Some secret \<and> well_formed_secret secret
            \<and> element (split CHR ''_'' secret) 1 = Some (getClusterId rpc)"
    if ok: "new_AgentRPC transport mid opts = Inr rpc" for rpc
  proof -
    from ok obtain secret where s: "Option.bind opts opt_apiSecret = Some secret"
      by (cases "Option.bind opts opt_apiSecret") (simp_all add: new_AgentRPC_def)
    from ok s have wf: "well_formed_secret secret"
      by (simp add: new_AgentRPC_def well_formed_secret_iff Let_def split: if_splits)
    from ok s wf have "element (split CHR ''_'' secret) 1 = Some (getClusterId rpc)"
      by (auto simp add: new_AgentRPC_def well_formed_secret_iff Let_def getClusterId_def falsy_def
          split: if_splits option.splits)
    with s wf show ?thesis by blast
  qed
qed

theorem constructor_credential_witness:
  "(\<exists>rpc :: string list AgentRPC.
      new_AgentRPC example_client ''m1'' (example_options ''sk_c1_x'') = Inr rpc
      \<and> getClusterId rpc = ''c1'')
   \<and> (\<exists>msg. (new_AgentRPC example_client ''m1'' (example_options ''sk_c1'')
                 :: js_exn + string list AgentRPC) = Inl (AgentRPCError msg))"
proof -
  let ?ok = "example_options ''sk_c1_x''"
  let ?bad = "example_options ''sk_c1''"
  obtain rpc :: "string list AgentRPC"
    where rpc: "new_AgentRPC example_client ''m1'' ?ok = Inr rpc"
    by (simp add: new_AgentRPC_def example_options_def element_def falsy_def or_else_def)
  from constructor_credential [of ?ok example_client "''m1''"] rpc
  have "element (split CHR ''_'' ''sk_c1_x'') 1 = Some (getClusterId rpc)"
    by (auto simp add: example_options_def)
  then have 1: "getClusterId rpc = ''c1''"
    by (simp add: element_def)
  have bad: "Option.bind ?bad opt_apiSecret = Some ''sk_c1'' \<and> \<not> well_formed_secret ''sk_c1''"
    by (simp add: example_options_def well_formed_secret_def)
  from constructor_credential [of ?bad example_client "''m1''", where ?'a = "string list"] bad
  have 2: "\<exists>msg. (new_AgentRPC example_client ''m1'' ?bad :: js_exn + string list AgentRPC)
              = Inl (AgentRPCError msg)"
    by blast
  from rpc 1 2 show ?thesis by blast
qed

lemma register_ok_present:
  assumes "register registration rpc = (Inr (), rpc1)"
  shows "map_of (toolsRegistry rpc1) (name registration) = Some registration
       \<and> (\<forall>k. k \<noteq> name registration \<longrightarrow> map_of (toolsRegistry rpc1) k = map_of (toolsRegistry rpc) k)"
  using assms
  by (auto simp add: register_def truthy_property_def set_property_def
        Object_prototype_properties_def map_add_def split: if_splits option.splits)


lemma example_registered_eq:
  "example_registered = example_facade\<lparr>toolsRegistry := [(''hello'', example_tool)]\<rparr>"
  by (simp add: example_registered_def register_def example_facade_def example_tool_def
        truthy_property_def Object_prototype_properties_def set_property_def)

text \<open>
  Claim C5. Registering a name that is already a key of the registry throws the
  configuration error for a duplicate name, and the facade, hence every existing
  registration, is left as it was.
\<close>

theorem duplicate_registration_rejected:
  assumes "map_of (toolsRegistry rpc) (name registration) = Some existing"
  shows "register registration rpc =
           (Inl (AgentRPCError (''Tool name '' @ [CHR 0x27] @ name registration @ [CHR 0x27]
                                 @ '' is already registered.'')), rpc)"
  using assms by (simp add: register_def truthy_property_def)


theorem duplicate_registration_rejected_witness:
  "register example_tool example_registered =
     (Inl (AgentRPCError (''Tool name '' @ [CHR 0x27] @ ''hello'' @ [CHR 0x27]
                           @ '' is already registered.'')), example_registered)"
proof -
  have h: "map_of (toolsRegistry example_registered) (name example_tool) = Some example_tool"
    by (simp add: example_registered_eq) (simp add: example_tool_def)
  from duplicate_registration_rejected [OF h] show ?thesis
    by (simp add: example_tool_def)
qed

lemma stop_all_keeps:
  "stop_all as tr = (as', tr') \<Longrightarrow> length as' = length as \<and> map tools as' = map tools as"
proof (induction as arbitrary: tr as' tr')
  case Nil
  then show ?case by simp
next
  case (Cons a as)
  obtain bs tr2 where rest: "stop_all as (snd (stop a tr)) = (bs, tr2)"
    by (cases "stop_all as (snd (stop a tr))")
  from Cons.IH [OF rest] have "length bs = length as" "map tools bs = map tools as"
    by simp_all
  with Cons.prems rest show ?case
    by (auto simp add: stop_def)
qed

lemma register_listening:
  assumes "pollingAgents rpc \<noteq> []"
  shows "\<exists>msg. register registration rpc = (Inl (AgentRPCError msg), rpc)"
  using assms by (simp add: register_def)

lemma facade_step_listening:
  assumes "pollingAgents rpc \<noteq> []"
  shows "pollingAgents (fst (facade_step env c (rpc, tr))) \<noteq> []
       \<and> toolsRegistry (fst (facade_step env c (rpc, tr))) = toolsRegistry rpc
       \<and> map tools (pollingAgents (fst (facade_step env c (rpc, tr)))) = map tools (pollingAgents rpc)"
proof (cases c)
  case (Register registration)
  with assms show ?thesis by (simp add: register_def)
next
  case Listen
  with assms show ?thesis by (simp add: listen_def)
next
  case Unlisten
  obtain bs tr2 where st: "stop_all (pollingAgents rpc) tr = (bs, tr2)"
    by (cases "stop_all (pollingAgents rpc) tr")
  from stop_all_keeps [OF st] assms have "bs \<noteq> []" "map tools bs = map tools (pollingAgents rpc)"
    by auto
  with Unlisten st show ?thesis
    by (simp add: unlisten_def)
qed

lemma facade_run_listening:
  assumes "pollingAgents rpc \<noteq> []"
  shows "pollingAgents (fst (facade_run env cs (rpc, tr))) \<noteq> []
       \<and> toolsRegistry (fst (facade_run env cs (rpc, tr))) = toolsRegistry rpc
       \<and> map tools (pollingAgents (fst (facade_run env cs (rpc, tr)))) = map tools (pollingAgents rpc)"
  using assms
proof (induction cs arbitrary: rpc tr)
  case Nil
  then show ?case by simp
next
  case (Cons c cs)
  obtain rpc1 tr1 where step: "facade_step env c (rpc, tr) = (rpc1, tr1)"
    by (cases "facade_step env c (rpc, tr)")
  from facade_step_listening [OF Cons.prems, of env c tr] step
  have a: "pollingAgents rpc1 \<noteq> []" "toolsRegistry rpc1 = toolsRegistry rpc"
    "map tools (pollingAgents rpc1) = map tools (pollingAgents rpc)"
    by simp_all
  from Cons.IH [OF a(1), of tr1] a step show ?case
    by simp
qed

lemma listen_ok:
  assumes "listen env rpc tr = (Inr (), rpc1, tr1)"
  shows "pollingAgents rpc = [] \<and> toolsRegistry rpc1 = toolsRegistry rpc
       \<and> (\<exists>a. pollingAgents rpc1 = [a] \<and> polling a \<and> tools a = Object_values (toolsRegistry rpc))"
  using assms
  by (auto simp add: listen_def start_def new_PollingAgent_def split: if_splits prod.splits sum.splits)

text \<open>
  Claim C6. Once \<open>listen\<close> has returned with a polling agent running, then after any
  further calls on the facade: every \<open>register\<close> throws a configuration error (for a
  new name, the one about registering before the listener starts) and leaves the facade
  unchanged, every \<open>listen\<close> throws \<open>Tools already listening\<close>, and the registry and
  the tools of the agent are the ones from before.
\<close>

theorem after_listen_rejected:
  assumes "listen env rpc tr = (Inr (), rpc1, tr1)"
    and "facade_run env cs (rpc1, tr1) = (rpc2, tr2)"
  shows "(\<exists>a. pollingAgents rpc1 = [a] \<and> polling a)
       \<and> (\<exists>msg. register registration rpc2 = (Inl (AgentRPCError msg), rpc2))
       \<and> (\<not> truthy_property (toolsRegistry rpc2) (name registration) \<longrightarrow>
            register registration rpc2 =
              (Inl (AgentRPCError ''Tools must be registered before starting the listener.''), rpc2))
       \<and> listen env rpc2 tr2 = (Inl (AgentRPCError ''Tools already listening''), rpc2, tr2)
       \<and> toolsRegistry rpc2 = toolsRegistry rpc
       \<and> map tools (pollingAgents rpc2) = map tools (pollingAgents rpc1)"
proof -
  from listen_ok [OF assms(1)] obtain a where
    l: "toolsRegistry rpc1 = toolsRegistry rpc" "pollingAgents rpc1 = [a]" "polling a"
    by blast
  then have ne: "pollingAgents rpc1 \<noteq> []" by simp
  from facade_run_listening [OF ne, of env cs tr1] assms(2)
  have r: "pollingAgents rpc2 \<noteq> []" "toolsRegistry rpc2 = toolsRegistry rpc1"
    "map tools (pollingAgents rpc2) = map tools (pollingAgents rpc1)"
    by simp_all
  have 1: "\<exists>a. pollingAgents rpc1 = [a] \<and> polling a" using l by blast
  have 2: "\<exists>msg. register registration rpc2 = (Inl (AgentRPCError msg), rpc2)"
    using r(1) by (rule register_listening)
  have 3: "\<not> truthy_property (toolsRegistry rpc2) (name registration) \<longrightarrow>
            register registration rpc2 =
              (Inl (AgentRPCError ''Tools must be registered before starting the listener.''), rpc2)"
    using r(1) by (simp add: register_def)
  have 4: "listen env rpc2 tr2 = (Inl (AgentRPCError ''Tools already listening''), rpc2, tr2)"
    using r(1) by (simp add: listen_def)
  from 1 2 3 4 r(2,3) l(1) show ?thesis by simp
qed


theorem after_listen_rejected_witness:
  "(\<exists>msg. register example_other_tool
            (fst (facade_run example_helpers [Unlisten, Register example_other_tool] example_listening))
          = (Inl (AgentRPCError msg),
             fst (facade_run example_helpers [Unlisten, Register example_other_tool] example_listening)))
   \<and> toolsRegistry
        (fst (facade_run example_helpers [Unlisten, Register example_other_tool] example_listening))
       = [(''hello'', example_tool)]"
proof -
  let ?cs = "[Unlisten, Register example_other_tool]"
  obtain rpc1 tr1 where l1: "example_listening = (rpc1, tr1)"
    by (cases example_listening)
  have "fst (listen example_helpers example_registered []) = Inr ()"
    by (simp add: listen_def example_registered_eq start_def registerMachine_def request_def
          new_PollingAgent_def example_facade_def example_client_def)
  with l1 have h1: "listen example_helpers example_registered [] = (Inr (), rpc1, tr1)"
    by (simp add: example_listening_def prod_eq_iff)
  obtain rpc2 tr2 where h2: "facade_run example_helpers ?cs (rpc1, tr1) = (rpc2, tr2)"
    by (cases "facade_run example_helpers ?cs (rpc1, tr1)")
  from after_listen_rejected [OF h1 h2, of example_other_tool]
  have "\<exists>msg. register example_other_tool rpc2 = (Inl (AgentRPCError msg), rpc2)"
    and "toolsRegistry rpc2 = toolsRegistry example_registered"
    by simp_all
  with l1 h2 show ?thesis
    by (simp add: example_registered_eq)
qed

section \<open>Properties of the poll loop\<close>

lemma try_pollIteration_failed:
  assumes "pollIteration env (agent st) (trace st) = (Inl e, tr1)"
  shows "try_pollIteration env st =
           st\<lparr>failureCount := failureCount st + 1, trace := tr1 @ [LogFailed (failureCount st) e]\<rparr>"
  using assms by (simp add: try_pollIteration_def)

lemma try_pollIteration_ok:
  assumes "pollIteration env (agent st) (trace st) = (Inr u, tr1)"
  shows "failureCount (try_pollIteration env st) = 0"
  using assms by (simp add: try_pollIteration_def)

lemma try_pollIteration_agent: "agent (try_pollIteration env st) = agent st"
  by (simp add: try_pollIteration_def split: prod.split sum.split)

lemma sleep_step_failureCount: "failureCount (sleep_step sc st) = failureCount st"
  by (simp add: sleep_step_def Let_def stop_def)

lemma sleep_step_polling:
  "polling (agent (sleep_step sc st)) =
     (polling (agent st) \<and> \<not> sc (trace st @ [Sleep (retryAfter (agent st) * 1000)]))"
  by (simp add: sleep_step_def Let_def stop_def)

lemma sleep_step_trace:
  "set (trace st) \<subseteq> set (trace (sleep_step sc st))"
  by (auto simp add: sleep_step_def Let_def stop_def)

lemma sleep_step_stopped:
  assumes "polling (agent st)" "\<not> polling (agent (sleep_step sc st))"
  shows "\<exists>tr. trace (sleep_step sc st) = tr @ [Log ''Stopping polling agent'']"
  using assms by (auto simp add: sleep_step_def Let_def stop_def split: if_splits)

lemma pollIteration_missing_clusterId:
  assumes "falsy (clusterId a)"
  shows "pollIteration env a tr = (Inl (Error ''Failed to poll. Could not find clusterId''), tr)"
  using assms by (simp add: pollIteration_def)

lemma runLoop_while_returns:
  assumes "runLoop_while env sc st = Some st'"
  shows "\<not> polling (agent st')
       \<and> (st' = st \<or> (\<exists>tr. trace st' = tr @ [Log ''Stopping polling agent'']))"
proof (rule runLoop_while.raw_induct
    [where P = "\<lambda>env sc st st'. \<not> polling (agent st')
       \<and> (st' = st \<or> (\<exists>tr. trace st' = tr @ [Log ''Stopping polling agent'']))", OF _ assms])
  fix loop :: "'a helpers \<Rightarrow> (event list \<Rightarrow> bool) \<Rightarrow> 'a loop_state \<Rightarrow> 'a loop_state option"
  fix env sc st st'
  assume IH: "\<And>env sc st st'. loop env sc st = Some st' \<Longrightarrow> \<not> polling (agent st')
       \<and> (st' = st \<or> (\<exists>tr. trace st' = tr @ [Log ''Stopping polling agent'']))"
    and eq: "(if polling (agent st) then loop env sc (loop_body env sc st) else Some st) = Some st'"
  show "\<not> polling (agent st')
       \<and> (st' = st \<or> (\<exists>tr. trace st' = tr @ [Log ''Stopping polling agent'']))"
  proof (cases "polling (agent st)")
    case False
    with eq show ?thesis by simp
  next
    case True
    with eq have next_st: "loop env sc (loop_body env sc st) = Some st'" by simp
    from IH [OF next_st] have fin: "\<not> polling (agent st')"
      and alt: "st' = loop_body env sc st \<or> (\<exists>tr. trace st' = tr @ [Log ''Stopping polling agent''])"
      by simp_all
    from alt show ?thesis
    proof
      assume eq: "st' = loop_body env sc st"
      have "polling (agent (try_pollIteration env st))"
        using True by (simp add: try_pollIteration_agent)
      moreover have "\<not> polling (agent (sleep_step sc (try_pollIteration env st)))"
        using fin eq by (simp add: loop_body_def)
      ultimately have "\<exists>tr. trace (sleep_step sc (try_pollIteration env st)) = tr @ [Log ''Stopping polling agent'']"
        by (rule sleep_step_stopped)
      with fin eq show ?thesis by (simp add: loop_body_def)
    next
      assume "\<exists>tr. trace st' = tr @ [Log ''Stopping polling agent'']"
      with fin show ?thesis by simp
    qed
  qed
qed

lemma runLoop_while_iterates:
  assumes "runLoop_while env sc st = Some st'"
  shows "\<exists>k. st' = (loop_body env sc ^^ k) st"
proof (rule runLoop_while.raw_induct
    [where P = "\<lambda>env sc st st'. \<exists>k. st' = (loop_body env sc ^^ k) st", OF _ assms])
  fix loop :: "'a helpers \<Rightarrow> (event list \<Rightarrow> bool) \<Rightarrow> 'a loop_state \<Rightarrow> 'a loop_state option"
  fix env sc st st'
  assume IH: "\<And>env sc st st'. loop env sc st = Some st' \<Longrightarrow> \<exists>k. st' = (loop_body env sc ^^ k) st"
    and eq: "(if polling (agent st) then loop env sc (loop_body env sc st) else Some st) = Some st'"
  show "\<exists>k. st' = (loop_body env sc ^^ k) st"
  proof (cases "polling (agent st)")
    case False
    with eq have "st' = (loop_body env sc ^^ 0) st" by simp
    then show ?thesis by blast
  next
    case True
    with eq have "loop env sc (loop_body env sc st) = Some st'" by simp
    from IH [OF this] obtain k where "st' = (loop_body env sc ^^ k) (loop_body env sc st)"
      by blast
    then have "st' = (loop_body env sc ^^ Suc k) st"
      by (simp add: funpow_swap1)
    then show ?thesis by blast
  qed
qed

lemma runLoop_while_stops:
  assumes "\<not> polling (agent ((loop_body env sc ^^ k) st))"
  shows "\<exists>st'. runLoop_while env sc st = Some st'"
  using assms
proof (induction k arbitrary: st)
  case 0
  then show ?case by (simp add: runLoop_while.simps)
next
  case (Suc k)
  show ?case
  proof (cases "polling (agent st)")
    case False
    then show ?thesis by (simp add: runLoop_while.simps)
  next
    case True
    from Suc.prems have "\<not> polling (agent ((loop_body env sc ^^ k) (loop_body env sc st)))"
      by (simp add: funpow_swap1)
    from Suc.IH [OF this] obtain st' where "runLoop_while env sc (loop_body env sc st) = Some st'"
      by blast
    with True show ?thesis
      by (subst runLoop_while.simps) simp
  qed
qed

lemma runLoop_while_forever:
  assumes "\<forall>k. polling (agent ((loop_body env sc ^^ k) st))"
  shows "runLoop_while env sc st = None"
proof (cases "runLoop_while env sc st")
  case None
  then show ?thesis .
next
  case (Some st')
  from runLoop_while_iterates [OF Some] obtain k where "st' = (loop_body env sc ^^ k) st"
    by blast
  moreover from runLoop_while_returns [OF Some] have "\<not> polling (agent st')"
    by simp
  ultimately show ?thesis using assms by blast
qed


lemma example_lost_iteration:
  "loop_body example_helpers sc \<lparr>agent = example_lost_agent\<lparr>polling := True\<rparr>, failureCount = n, trace = tr\<rparr>
     = sleep_step sc \<lparr>agent = example_lost_agent\<lparr>polling := True\<rparr>, failureCount = Suc n,
          trace = tr @ [LogFailed n (Error ''Failed to poll. Could not find clusterId'')]\<rparr>"
  by (simp add: loop_body_def try_pollIteration_def pollIteration_def example_lost_agent_def falsy_def)

lemma example_lost_run:
  "runLoop example_helpers example_stop example_lost_agent [] =
     Some \<lparr>agent = example_lost_agent\<lparr>polling := False\<rparr>, failureCount = 2,
           trace = [LogFailed 0 (Error ''Failed to poll. Could not find clusterId''), Sleep 0,
                    LogFailed 1 (Error ''Failed to poll. Could not find clusterId''), Sleep 0,
                    Log ''Stopping polling agent'']\<rparr>"
  unfolding runLoop_def
  apply (subst runLoop_while.simps, simp add: example_lost_iteration)
  apply (simp add: sleep_step_def example_stop_def sleeps_def stop_def)
  apply (subst runLoop_while.simps, simp add: example_lost_iteration)
  apply (simp add: sleep_step_def example_stop_def sleeps_def stop_def)
  apply (subst runLoop_while.simps, simp)
  apply (simp add: example_lost_agent_def example_agent_def new_PollingAgent_def DEFAULT_RETRY_AFTER_SECONDS_def)
  done


lemma never_stopped:
  "polling (agent st) \<Longrightarrow> polling (agent ((loop_body env (\<lambda>tr. False) ^^ k) st))"
  by (induction k) (simp_all add: loop_body_def sleep_step_polling try_pollIteration_agent)

lemma example_flaky_first:
  "pollIteration example_helpers (agent example_flaky_start) (trace example_flaky_start) =
     (Inl (Error ''Service Unavailable''),
      [Request (ListJobs \<lparr>lj_clusterId = Some ''c1'', lj_tools = ''hello'', lj_status = ''pending'',
                           lj_acknowledge = True, lj_limit = 10, lj_waitTime = 20\<rparr>)])"
  by (simp add: example_flaky_start_def example_flaky_agent_def new_PollingAgent_def
        pollIteration_def falsy_def request_def example_flaky_client_def requests_def
        example_tool_def)

lemma example_flaky_second:
  "\<exists>tr1. pollIteration example_helpers
           (agent (loop_body example_helpers example_stop example_flaky_start))
           (trace (loop_body example_helpers example_stop example_flaky_start)) = (Inr (), tr1)"
  by (simp add: loop_body_def try_pollIteration_def example_flaky_first sleep_step_def
        example_stop_def sleeps_def)
     (simp add: example_flaky_start_def example_flaky_agent_def new_PollingAgent_def
        pollIteration_def falsy_def request_def example_flaky_client_def observe)

lemma try_pollIteration_ok_state:
  assumes "pollIteration env (agent st) (trace st) = (Inr u, tr1)"
  shows "try_pollIteration env st =
           (if failureCount st > 0
            then st\<lparr>failureCount := 0, trace := tr1 @ [LogRecovered (failureCount st)]\<rparr>
            else st\<lparr>trace := tr1\<rparr>)"
  using assms by (simp add: try_pollIteration_def)

lemma sleep_step_agent:
  "agent (sleep_step sc st) =
     (if sc (trace st @ [Sleep (retryAfter (agent st) * 1000)])
      then (agent st)\<lparr>polling := False\<rparr> else agent st)"
  by (simp add: sleep_step_def Let_def stop_def)

lemma loop_body_agent:
  "agent (loop_body env sc st) =
     (if sc (trace (try_pollIteration env st) @ [Sleep (retryAfter (agent st) * 1000)])
      then (agent st)\<lparr>polling := False\<rparr> else agent st)"
  by (simp add: loop_body_def sleep_step_agent try_pollIteration_agent)

lemma sleep_step_stopped_by:
  assumes "polling (agent st)" "\<not> polling (agent (sleep_step sc st))"
  shows "\<exists>tr0. sc tr0 \<and> trace (sleep_step sc st) = tr0 @ [Log ''Stopping polling agent'']"
  using assms by (auto simp add: sleep_step_def Let_def stop_def split: if_splits)

lemma runLoop_while_returns_by:
  assumes "runLoop_while env sc st = Some st'"
  shows "\<not> polling (agent st')
       \<and> (st' = st \<or> (\<exists>tr0. sc tr0 \<and> trace st' = tr0 @ [Log ''Stopping polling agent'']))"
proof (rule runLoop_while.raw_induct
    [where P = "\<lambda>env sc st st'. \<not> polling (agent st')
       \<and> (st' = st \<or> (\<exists>tr0. sc tr0 \<and> trace st' = tr0 @ [Log ''Stopping polling agent'']))",
     OF _ assms])
  fix loop :: "'a helpers \<Rightarrow> (event list \<Rightarrow> bool) \<Rightarrow> 'a loop_state \<Rightarrow> 'a loop_state option"
  fix env sc st st'
  assume IH: "\<And>env sc st st'. loop env sc st = Some st' \<Longrightarrow> \<not> polling (agent st')
       \<and> (st' = st \<or> (\<exists>tr0. sc tr0 \<and> trace st' = tr0 @ [Log ''Stopping polling agent'']))"
    and eq: "(if polling (agent st) then loop env sc (loop_body env sc st) else Some st) = Some st'"
  show "\<not> polling (agent st')
       \<and> (st' = st \<or> (\<exists>tr0. sc tr0 \<and> trace st' = tr0 @ [Log ''Stopping polling agent'']))"
  proof (cases "polling (agent st)")
    case False
    with eq show ?thesis by simp
  next
    case True
    with eq have next_st: "loop env sc (loop_body env sc st) = Some st'" by simp
    from IH [OF next_st] have fin: "\<not> polling (agent st')"
      and alt: "st' = loop_body env sc st
                \<or> (\<exists>tr0. sc tr0 \<and> trace st' = tr0 @ [Log ''Stopping polling agent''])"
      by simp_all
    from alt show ?thesis
    proof
      assume eq': "st' = loop_body env sc st"
      have "polling (agent (try_pollIteration env st))"
        using True by (simp add: try_pollIteration_agent)
      moreover have "\<not> polling (agent (sleep_step sc (try_pollIteration env st)))"
        using fin eq' by (simp add: loop_body_def)
      ultimately have "\<exists>tr0. sc tr0 \<and> trace (sleep_step sc (try_pollIteration env st))
                                = tr0 @ [Log ''Stopping polling agent'']"
        by (rule sleep_step_stopped_by)
      with fin eq' show ?thesis by (simp add: loop_body_def)
    next
      assume "\<exists>tr0. sc tr0 \<and> trace st' = tr0 @ [Log ''Stopping polling agent'']"
      with fin show ?thesis by simp
    qed
  qed
qed

lemma runLoop_while_least:
  assumes "runLoop_while env sc st = Some st'"
  shows "\<exists>k. st' = (loop_body env sc ^^ k) st
           \<and> (\<forall>j<k. polling (agent ((loop_body env sc ^^ j) st)))
           \<and> \<not> polling (agent st')"
proof (rule runLoop_while.raw_induct
    [where P = "\<lambda>env sc st st'. \<exists>k. st' = (loop_body env sc ^^ k) st
           \<and> (\<forall>j<k. polling (agent ((loop_body env sc ^^ j) st)))
           \<and> \<not> polling (agent st')", OF _ assms])
  fix loop :: "'a helpers \<Rightarrow> (event list \<Rightarrow> bool) \<Rightarrow> 'a loop_state \<Rightarrow> 'a loop_state option"
  fix env sc st st'
  assume IH: "\<And>env sc st st'. loop env sc st = Some st' \<Longrightarrow>
       \<exists>k. st' = (loop_body env sc ^^ k) st
           \<and> (\<forall>j<k. polling (agent ((loop_body env sc ^^ j) st)))
           \<and> \<not> polling (agent st')"
    and eq: "(if polling (agent st) then loop env sc (loop_body env sc st) else Some st) = Some st'"
  show "\<exists>k. st' = (loop_body env sc ^^ k) st
           \<and> (\<forall>j<k. polling (agent ((loop_body env sc ^^ j) st)))
           \<and> \<not> polling (agent st')"
  proof (cases "polling (agent st)")
    case False
    with eq have "st' = (loop_body env sc ^^ 0) st" "\<not> polling (agent st')" by simp_all
    then show ?thesis by (intro exI [of _ 0]) simp
  next
    case True
    with eq have "loop env sc (loop_body env sc st) = Some st'" by simp
    from IH [OF this] obtain k where
      k: "st' = (loop_body env sc ^^ k) (loop_body env sc st)"
        "\<forall>j<k. polling (agent ((loop_body env sc ^^ j) (loop_body env sc st)))"
        "\<not> polling (agent st')"
      by blast
    have 1: "st' = (loop_body env sc ^^ Suc k) st"
      using k(1) by (simp add: funpow_swap1)
    have 2: "polling (agent ((loop_body env sc ^^ j) st))" if "j < Suc k" for j
    proof (cases j)
      case 0
      with True show ?thesis by simp
    next
      case (Suc i)
      with that have "i < k" by simp
      with k(2) have "polling (agent ((loop_body env sc ^^ i) (loop_body env sc st)))" by blast
      with Suc show ?thesis by (simp add: funpow_swap1)
    qed
    from 1 2 k(3) show ?thesis by blast
  qed
qed

lemma runLoop_needs_stop:
  assumes "runLoop env sc a tr = Some st'"
  shows "\<not> polling (agent st')
       \<and> (\<exists>tr0. sc tr0 \<and> trace st' = tr0 @ [Log ''Stopping polling agent''])"
proof -
  let ?st0 = "\<lparr>agent = a\<lparr>polling := True\<rparr>, failureCount = 0, trace = tr\<rparr>"
  from assms have r: "runLoop_while env sc ?st0 = Some st'"
    by (simp add: runLoop_def)
  from runLoop_while_returns_by [OF r] have "\<not> polling (agent st')"
    and "st' = ?st0 \<or> (\<exists>tr0. sc tr0 \<and> trace st' = tr0 @ [Log ''Stopping polling agent''])"
    by simp_all
  then show ?thesis by auto
qed

lemma runLoop_never_stopped:
  assumes "\<forall>tr0. \<not> sc tr0"
  shows "runLoop env sc a tr = None"
proof (cases "runLoop env sc a tr")
  case None
  then show ?thesis .
next
  case (Some st')
  from runLoop_needs_stop [OF Some] assms show ?thesis by blast
qed

lemma example_agent_polls:
  "\<exists>tr1. pollIteration example_helpers
           (agent \<lparr>agent = example_agent\<lparr>polling := True\<rparr>, failureCount = 0, trace = []\<rparr>)
           (trace \<lparr>agent = example_agent\<lparr>polling := True\<rparr>, failureCount = 0, trace = []\<rparr>)
         = (Inr (), tr1)"
  by (simp add: example_agent_def new_PollingAgent_def pollIteration_def falsy_def request_def
        example_client_def)

text \<open>
  Claim C7. For every exception escaping a poll iteration the loop body adds one to the
  failure counter and logs the failure; a missing cluster id at poll time is such an
  exception. An iteration that succeeds leaves the counter at zero. After any pass, failed
  or not, the agent is the one from before, with \<open>polling\<close> cleared exactly when
  \<open>stop()\<close> was called during the pass; so the loop goes on after a failure and after a
  success alike. The loop returns only after a call of \<open>stop()\<close>, in the state reached
  by the first pass that ends with \<open>polling\<close> false; it does return then, and it
  never returns if \<open>stop()\<close> is never called.
\<close>

theorem poll_loop_survives_failures:
  "(\<forall>e tr1. pollIteration env (agent st) (trace st) = (Inl e, tr1) \<longrightarrow>
       failureCount (loop_body env sc st) = failureCount st + 1
     \<and> LogFailed (failureCount st) e \<in> set (trace (loop_body env sc st))
     \<and> (polling (agent st)
          \<and> \<not> sc (tr1 @ [LogFailed (failureCount st) e, Sleep (retryAfter (agent st) * 1000)])
        \<longrightarrow> polling (agent (loop_body env sc st))))
   \<and> (falsy (clusterId (agent st)) \<longrightarrow>
        pollIteration env (agent st) (trace st) =
          (Inl (Error ''Failed to poll. Could not find clusterId''), trace st))
   \<and> (\<forall>u tr1. pollIteration env (agent st) (trace st) = (Inr u, tr1) \<longrightarrow>
        failureCount (loop_body env sc st) = 0
      \<and> (polling (agent st)
           \<and> \<not> sc ((if failureCount st > 0 then tr1 @ [LogRecovered (failureCount st)] else tr1)
                    @ [Sleep (retryAfter (agent st) * 1000)])
         \<longrightarrow> polling (agent (loop_body env sc st))))
   \<and> agent (loop_body env sc st) =
        (if sc (trace (try_pollIteration env st) @ [Sleep (retryAfter (agent st) * 1000)])
         then (agent st)\<lparr>polling := False\<rparr> else agent st)
   \<and> (polling (agent st) \<longrightarrow>
        runLoop_while env sc st = runLoop_while env sc (loop_body env sc st))
   \<and> (\<forall>st'. runLoop env sc a tr = Some st' \<longrightarrow>
        \<not> polling (agent st')
      \<and> (\<exists>tr0. sc tr0 \<and> trace st' = tr0 @ [Log ''Stopping polling agent'']))
   \<and> (\<forall>st'. runLoop_while env sc st = Some st' \<longrightarrow>
        (\<exists>k. st' = (loop_body env sc ^^ k) st
            \<and> (\<forall>j<k. polling (agent ((loop_body env sc ^^ j) st)))
            \<and> \<not> polling (agent st')))
   \<and> ((\<exists>k. \<not> polling (agent ((loop_body env sc ^^ k) st))) \<longrightarrow>
        (\<exists>st'. runLoop_while env sc st = Some st'))
   \<and> ((\<forall>k. polling (agent ((loop_body env sc ^^ k) st))) \<longrightarrow>
        runLoop_while env sc st = None)
   \<and> ((\<forall>tr0. \<not> sc tr0) \<longrightarrow> runLoop env sc a tr = None)"
proof -
  have c1: "failureCount (loop_body env sc st) = failureCount st + 1
     \<and> LogFailed (failureCount st) e \<in> set (trace (loop_body env sc st))
     \<and> (polling (agent st)
          \<and> \<not> sc (tr1 @ [LogFailed (failureCount st) e, Sleep (retryAfter (agent st) * 1000)])
        \<longrightarrow> polling (agent (loop_body env sc st)))"
    if p: "pollIteration env (agent st) (trace st) = (Inl e, tr1)" for e tr1
  proof (intro conjI)
    show "failureCount (loop_body env sc st) = failureCount st + 1"
      using p by (simp add: loop_body_def sleep_step_failureCount try_pollIteration_failed)
    show "LogFailed (failureCount st) e \<in> set (trace (loop_body env sc st))"
      using p sleep_step_trace [of "try_pollIteration env st" sc]
      by (auto simp add: loop_body_def try_pollIteration_failed)
    show "polling (agent st)
          \<and> \<not> sc (tr1 @ [LogFailed (failureCount st) e, Sleep (retryAfter (agent st) * 1000)])
        \<longrightarrow> polling (agent (loop_body env sc st))"
      using p by (simp add: loop_body_def sleep_step_polling try_pollIteration_failed)
  qed
  have c2: "pollIteration env (agent st) (trace st) =
          (Inl (Error ''Failed to poll. Could not find clusterId''), trace st)"
    if "falsy (clusterId (agent st))"
    using that by (rule pollIteration_missing_clusterId)
  have c3: "failureCount (loop_body env sc st) = 0
      \<and> (polling (agent st)
           \<and> \<not> sc ((if failureCount st > 0 then tr1 @ [LogRecovered (failureCount st)] else tr1)
                    @ [Sleep (retryAfter (agent st) * 1000)])
         \<longrightarrow> polling (agent (loop_body env sc st)))"
    if p: "pollIteration env (agent st) (trace st) = (Inr u, tr1)" for u tr1
  proof (intro conjI)
    show "failureCount (loop_body env sc st) = 0"
      using p by (simp add: loop_body_def sleep_step_failureCount try_pollIteration_ok)
    show "polling (agent st)
           \<and> \<not> sc ((if failureCount st > 0 then tr1 @ [LogRecovered (failureCount st)] else tr1)
                    @ [Sleep (retryAfter (agent st) * 1000)])
         \<longrightarrow> polling (agent (loop_body env sc st))"
      using p by (simp add: loop_body_def sleep_step_polling try_pollIteration_ok_state)
  qed
  have c4: "agent (loop_body env sc st) =
        (if sc (trace (try_pollIteration env st) @ [Sleep (retryAfter (agent st) * 1000)])
         then (agent st)\<lparr>polling := False\<rparr> else agent st)"
    by (rule loop_body_agent)
  have c5: "runLoop_while env sc st = runLoop_while env sc (loop_body env sc st)"
    if "polling (agent st)"
    using that by (subst runLoop_while.simps) simp
  have c6: "\<not> polling (agent st')
      \<and> (\<exists>tr0. sc tr0 \<and> trace st' = tr0 @ [Log ''Stopping polling agent''])"
    if "runLoop env sc a tr = Some st'" for st'
    using that by (rule runLoop_needs_stop)
  have c7: "\<exists>k. st' = (loop_body env sc ^^ k) st
            \<and> (\<forall>j<k. polling (agent ((loop_body env sc ^^ j) st)))
            \<and> \<not> polling (agent st')"
    if "runLoop_while env sc st = Some st'" for st'
    using that by (rule runLoop_while_least)
  have c8: "\<exists>st'. runLoop_while env sc st = Some st'"
    if "\<exists>k. \<not> polling (agent ((loop_body env sc ^^ k) st))"
    using that runLoop_while_stops by blast
  have c9: "runLoop_while env sc st = None"
    if "\<forall>k. polling (agent ((loop_body env sc ^^ k) st))"
    using that by (rule runLoop_while_forever)
  have c10: "runLoop env sc a tr = None" if "\<forall>tr0. \<not> sc tr0"
    using that by (rule runLoop_never_stopped)
  show ?thesis
    apply (intro conjI allI impI)
    using c1 apply blast
    using c1 apply blast
    using c1 apply blast
    using c2 apply blast
    using c3 apply blast
    using c3 apply blast
    using c4 apply blast
    using c5 apply blast
    using c6 apply blast
    using c6 apply blast
    using c7 apply blast
    using c8 apply blast
    using c9 apply blast
    using c10 apply blast
    done
qed

theorem poll_loop_survives_failures_witness:
  "failureCount (loop_body example_helpers example_stop example_flaky_start) = 1
   \<and> failureCount ((loop_body example_helpers example_stop ^^ 2) example_flaky_start) = 0
   \<and> (\<exists>st'. runLoop example_helpers example_stop example_lost_agent [] = Some st'
          \<and> failureCount st' = 2 \<and> \<not> polling (agent st'))
   \<and> runLoop_while example_helpers (\<lambda>tr. False) example_lost_start = None
   \<and> polling (agent (loop_body example_helpers (\<lambda>tr. False)
         \<lparr>agent = example_agent\<lparr>polling := True\<rparr>, failureCount = 0, trace = []\<rparr>))
   \<and> runLoop example_helpers (\<lambda>tr. False) example_agent [] = None"
proof -
  let ?body = "loop_body example_helpers example_stop"
  let ?start = "\<lparr>agent = example_agent\<lparr>polling := True\<rparr>, failureCount = 0, trace = []\<rparr>"
  note first = poll_loop_survives_failures
    [of example_helpers example_flaky_start example_stop example_lost_agent "[]"]
  note second = poll_loop_survives_failures
    [of example_helpers "?body example_flaky_start" example_stop example_lost_agent "[]"]
  note forever = poll_loop_survives_failures
    [of example_helpers example_lost_start "\<lambda>tr. False" example_lost_agent "[]"]
  note healthy = poll_loop_survives_failures
    [of example_helpers ?start "\<lambda>tr. False" example_agent "[]"]
  from first example_flaky_first
  have 1: "failureCount (?body example_flaky_start) = 1"
    by (simp add: example_flaky_start_def)
  from second example_flaky_second
  have "failureCount (?body (?body example_flaky_start)) = 0"
    by blast
  then have 2: "failureCount ((?body ^^ 2) example_flaky_start) = 0"
    by (simp add: numeral_2_eq_2)
  from first example_lost_run
  have 3: "\<exists>st'. runLoop example_helpers example_stop example_lost_agent [] = Some st'
          \<and> failureCount st' = 2 \<and> \<not> polling (agent st')"
    by simp
  have "\<forall>k. polling (agent ((loop_body example_helpers (\<lambda>tr. False) ^^ k) example_lost_start))"
    by (simp add: never_stopped example_lost_start_def)
  with forever have 4: "runLoop_while example_helpers (\<lambda>tr. False) example_lost_start = None"
    by blast
  from healthy example_agent_polls
  have 5: "polling (agent (loop_body example_helpers (\<lambda>tr. False) ?start))"
    by auto
  from healthy have 6: "runLoop example_helpers (\<lambda>tr. False) example_agent [] = None"
    by blast
  from 1 2 3 4 5 6 show ?thesis by blast
qed

section \<open>Properties of \<open>createAndPollJob\<close>\<close>










lemma poll_trace_Suc:
  "poll_trace tr p (Suc n) = poll_trace tr p n @ [Request (GetJob p), Sleep 1000]"
proof -
  have "replicate (Suc n) [Request (GetJob p), Sleep 1000]
          = replicate n [Request (GetJob p), Sleep 1000] @ [[Request (GetJob p), Sleep 1000]]"
    by (simp add: replicate_append_same)
  then show ?thesis
    by (simp add: poll_trace_def del: replicate.simps)
qed










end
